theory Spec2Isabelle
  imports Complex_Main "HOL-Library.AList" "HOL-Library.Word"
begin

section \<open>Numeric arrays of \<^verbatim>\<open>util.py\<close>\<close>

text \<open>
  The equity passed to \<^verbatim>\<open>plot_equity_dd\<close> reaches numpy as an array of one of two
  element types: \<^verbatim>\<open>int64\<close> (an integer array, or a list of Python integers) or
  \<^verbatim>\<open>float64\<close>. An \<^verbatim>\<open>int64\<close> element is a 64-bit word read as a signed number;
  arithmetic on it wraps around silently. A finite \<^verbatim>\<open>float64\<close> element is modelled
  as an exact rational: the rounding of a finite result to the nearest double is outside
  the model, whereas overflow is in it. A \<^verbatim>\<open>nan\<close> is not an equity value. The
  result of a floating-point operation may leave the finite numbers: the type \<open>npfloat\<close>
  holds these results.
\<close>

datatype npfloat = Fin rat | PInf | NInf | NaN

fun is_finite :: "npfloat \<Rightarrow> bool" where
  "is_finite (Fin _) = True"
| "is_finite _ = False"

fun np_less :: "npfloat \<Rightarrow> npfloat \<Rightarrow> bool" where
  "np_less NaN _ = False"
| "np_less _ NaN = False"
| "np_less (Fin a) (Fin b) = (a < b)"
| "np_less NInf NInf = False"
| "np_less NInf _ = True"
| "np_less _ NInf = False"
| "np_less PInf _ = False"
| "np_less (Fin _) PInf = True"

definition np_less_equal :: "npfloat \<Rightarrow> npfloat \<Rightarrow> bool" where
  "np_less_equal a b = (np_less a b \<or> (a = b \<and> a \<noteq> NaN))"

datatype ndarray = Int64Array "64 word list" | Float64Array "rat list"

fun array_size :: "ndarray \<Rightarrow> nat" where
  "array_size (Int64Array ws) = length ws"
| "array_size (Float64Array xs) = length xs"

text \<open>The number an element stands for.\<close>

definition int64_value :: "64 word \<Rightarrow> rat" where
  "int64_value w = of_int (sint w)"

fun array_values :: "ndarray \<Rightarrow> rat list" where
  "array_values (Int64Array ws) = map int64_value ws"
| "array_values (Float64Array xs) = xs"

text \<open>
  A floating-point operation whose exact result is \<open>r\<close>: a magnitude of at least
  \<open>2^1024 - 2^970\<close>, halfway between the largest double and \<open>2^1024\<close>, rounds to an
  infinity.
\<close>

definition float64_overflow :: rat where
  "float64_overflow = 2 ^ 1024 - 2 ^ 970"

definition float64_result :: "rat \<Rightarrow> npfloat" where
  "float64_result r =
     (if float64_overflow \<le> r then PInf
      else if r \<le> - float64_overflow then NInf
      else Fin r)"

text \<open>
  \<^verbatim>\<open>np.maximum.accumulate\<close>: the running maximum, element by element, in the array's
  own element type (signed comparison on \<^verbatim>\<open>int64\<close>); the empty array gives the empty
  array.
\<close>

definition maximum_int64 :: "64 word \<Rightarrow> 64 word \<Rightarrow> 64 word" where
  "maximum_int64 a b = (if sint a \<le> sint b then b else a)"

fun accumulate_from :: "('a \<Rightarrow> 'a \<Rightarrow> 'a) \<Rightarrow> 'a \<Rightarrow> 'a list \<Rightarrow> 'a list" where
  "accumulate_from f m [] = []"
| "accumulate_from f m (x # xs) = f m x # accumulate_from f (f m x) xs"

fun accumulate :: "('a \<Rightarrow> 'a \<Rightarrow> 'a) \<Rightarrow> 'a list \<Rightarrow> 'a list" where
  "accumulate f [] = []"
| "accumulate f (x # xs) = x # accumulate_from f x xs"

fun maximum_accumulate :: "ndarray \<Rightarrow> ndarray" where
  "maximum_accumulate (Int64Array ws) = Int64Array (accumulate maximum_int64 ws)"
| "maximum_accumulate (Float64Array xs) = Float64Array (accumulate max xs)"

text \<open>
  \<^verbatim>\<open>a - b\<close> on two arrays, as the numbers of the result. On two \<^verbatim>\<open>int64\<close>
  arrays the difference is taken in 64-bit words and wraps around; otherwise it is a
  floating-point subtraction.
\<close>

fun subtract :: "ndarray \<Rightarrow> ndarray \<Rightarrow> npfloat list" where
  "subtract (Int64Array a) (Int64Array b) = map (\<lambda>w. Fin (int64_value w)) (map2 (-) a b)"
| "subtract a b = map float64_result (map2 (-) (array_values a) (array_values b))"

text \<open>
  \<^verbatim>\<open>a / b\<close> (numpy \<^verbatim>\<open>true_divide\<close>, a floating-point division also on integer
  arrays) of a difference by a finite element: a zero divisor does not raise, it gives
  \<^verbatim>\<open>nan\<close>, \<^verbatim>\<open>inf\<close> or \<^verbatim>\<open>-inf\<close>.
\<close>

fun true_divide :: "npfloat \<Rightarrow> rat \<Rightarrow> npfloat" where
  "true_divide (Fin a) b =
     (if b \<noteq> 0 then float64_result (a / b)
      else if a = 0 then NaN
      else if 0 < a then PInf
      else NInf)"
| "true_divide PInf b = (if 0 \<le> b then PInf else NInf)"
| "true_divide NInf b = (if 0 \<le> b then NInf else PInf)"
| "true_divide NaN b = NaN"

text \<open>\<^verbatim>\<open>v * c\<close> for an array element \<open>v\<close> and a finite scalar \<open>c\<close>.\<close>

fun np_multiply :: "npfloat \<Rightarrow> rat \<Rightarrow> npfloat" where
  "np_multiply (Fin a) c = float64_result (a * c)"
| "np_multiply NaN c = NaN"
| "np_multiply PInf c = (if 0 < c then PInf else if c < 0 then NInf else NaN)"
| "np_multiply NInf c = (if 0 < c then NInf else if c < 0 then PInf else NaN)"

subsection \<open>The drawdown computation of \<^verbatim>\<open>plot_equity_dd\<close> (lines 6 to 8)\<close>

text \<open>
  \<^verbatim>\<open>
  peak = np.maximum.accumulate(equity)
  drawdown = (equity - peak)
  drawdown_pct = drawdown / peak * 100
  \<close>
  These are the arrays the three lines compute when no floating-point error is raised.
\<close>

definition peak :: "ndarray \<Rightarrow> ndarray" where
  "peak equity = maximum_accumulate equity"

definition drawdown :: "ndarray \<Rightarrow> npfloat list" where
  "drawdown equity = subtract equity (peak equity)"

definition drawdown_pct :: "ndarray \<Rightarrow> npfloat list" where
  "drawdown_pct equity =
     map (\<lambda>q. np_multiply q 100)
       (map2 true_divide (drawdown equity) (array_values (peak equity)))"

text \<open>
  The subtraction of line 7 at index \<open>i\<close> does not wrap around: always so for
  \<^verbatim>\<open>float64\<close>; for \<^verbatim>\<open>int64\<close> when the difference is at least \<open>-2^63\<close>.
\<close>

fun subtraction_exact :: "ndarray \<Rightarrow> nat \<Rightarrow> bool" where
  "subtraction_exact (Int64Array ws) i =
     (- (2 ^ 63) \<le> sint (ws ! i) - sint (accumulate maximum_int64 ws ! i))"
| "subtraction_exact (Float64Array xs) i = True"

text \<open>Rounding to two decimal places, used to state the documented scenario.\<close>

definition to_2dp :: "rat \<Rightarrow> rat" where
  "to_2dp q = of_int (round (q * 100)) / 100"

fun round_2dp :: "npfloat \<Rightarrow> npfloat" where
  "round_2dp (Fin q) = Fin (to_2dp q)"
| "round_2dp v = v"

text \<open>The floating-point errors numpy tells apart (underflow is not modelled).\<close>

datatype fp_error = DivideByZero | Overflow | Invalid

section \<open>Effects, errors and the plotting library\<close>

text \<open>
  Neither script returns a value: what it does is the sequence of its calls into the
  plotting library, its prints and its file accesses, and the way it ends. A run is the
  list of these events in program order, with its outcome: normal return, an uncaught
  exception, or \<^verbatim>\<open>sys.exit(n)\<close>. No line of the two source files writes a file, so
  no definition below emits \<open>FileWrite\<close>.
\<close>

datatype py_error =
    ImportError string
  | KeyError string
  | ValueError string
  | FileNotFoundError string
  | ParserError string
  | FloatingPointError fp_error

datatype outcome = Returned | Raised py_error | SysExit nat

text \<open>The process exit status: an uncaught exception ends the interpreter with status 1.\<close>

fun exit_status :: "outcome \<Rightarrow> nat" where
  "exit_status Returned = 0"
| "exit_status (Raised e) = 1"
| "exit_status (SysExit n) = n"

text \<open>
  The object a call is made on: the \<^verbatim>\<open>plt\<close> module itself, or one of the axes
  the source names \<^verbatim>\<open>ax1\<close>, \<^verbatim>\<open>ax2\<close>, \<^verbatim>\<open>ax1b\<close>, \<^verbatim>\<open>ax2b\<close>.
\<close>

datatype target = Pyplot | Ax1 | Ax2 | Ax1b | Ax2b

type_synonym kwargs = "(string \<times> string) list"

datatype 'y ydata = Scalar 'y | Series "'y list"

datatype ('x, 'y) event =
    Print string
  | FileRead string
  | FileWrite string
  | Figure "nat \<times> nat"
  | Subplots nat nat bool "nat \<times> nat"
  | Twinx target target
  | Plot target "'x list" "'y list" kwargs
  | FillBetween target "'x list" "'y ydata" "'y ydata" "bool list option" kwargs
  | SetXLabel target string
  | SetYLabel target string kwargs
  | TickParams target kwargs
  | Title string
  | Suptitle string
  | Grid target bool kwargs
  | SetYScale target string
  | SetYLim target rat
  | MinorticksOn
  | Legend target kwargs
  | TightLayout
  | Show

definition skip :: "'e list \<times> outcome" where
  "skip = ([], Returned)"

definition emit :: "'e \<Rightarrow> 'e list \<times> outcome" where
  "emit e = ([e], Returned)"

definition raise :: "py_error \<Rightarrow> 'e list \<times> outcome" where
  "raise err = ([], Raised err)"

definition sys_exit :: "nat \<Rightarrow> 'e list \<times> outcome" where
  "sys_exit n = ([], SysExit n)"

text \<open>Statements in sequence: the first one that does not return ends the run.\<close>

fun exec :: "('e list \<times> outcome) list \<Rightarrow> 'e list \<times> outcome" where
  "exec [] = ([], Returned)"
| "exec (s # ss) =
     (case snd s of
        Returned \<Rightarrow> (fst s @ fst (exec ss), snd (exec ss))
      | Raised err \<Rightarrow> s
      | SysExit n \<Rightarrow> s)"

text \<open>An expression that may raise, and the statement that uses its value.\<close>

definition on_value :: "py_error + 'a \<Rightarrow> ('a \<Rightarrow> 'e list \<times> outcome) \<Rightarrow> 'e list \<times> outcome" where
  "on_value r k = (case r of Inl err \<Rightarrow> raise err | Inr v \<Rightarrow> k v)"

subsection \<open>Library behaviour the scripts rely on\<close>

text \<open>
  The two checks below belong to the plotting library, not to the repository; the source
  has no length check of its own. \<^verbatim>\<open>plot(x, y)\<close> raises \<^verbatim>\<open>ValueError\<close> when
  \<open>x\<close> and \<open>y\<close> differ in length. \<^verbatim>\<open>fill_between(x, y1, y2, where)\<close> broadcasts
  its three arguments (a scalar, or a sequence of one element, fits any length) and
  raises \<^verbatim>\<open>ValueError\<close> when they do not broadcast or when \<open>where\<close> has another
  size than \<open>x\<close>. All other plotting calls are taken to succeed.
\<close>

definition ax_plot :: "target \<Rightarrow> 'x list \<Rightarrow> 'y list \<Rightarrow> kwargs \<Rightarrow> ('x, 'y) event list \<times> outcome" where
  "ax_plot ax x y kw =
     (if length x \<noteq> length y
      then raise (ValueError ''x and y must have same first dimension'')
      else emit (Plot ax x y kw))"

fun ydata_size :: "'y ydata \<Rightarrow> nat" where
  "ydata_size (Scalar v) = 1"
| "ydata_size (Series vs) = length vs"

definition broadcastable :: "nat list \<Rightarrow> bool" where
  "broadcastable ns = list_all (\<lambda>n. list_all (\<lambda>m. n = m \<or> n = 1 \<or> m = 1) ns) ns"

definition ax_fill_between ::
  "target \<Rightarrow> 'x list \<Rightarrow> 'y ydata \<Rightarrow> 'y ydata \<Rightarrow> bool list option \<Rightarrow> kwargs \<Rightarrow>
   ('x, 'y) event list \<times> outcome" where
  "ax_fill_between ax x y1 y2 wh kw =
     (if (case wh of None \<Rightarrow> False | Some w \<Rightarrow> length w \<noteq> length x)
      then raise (ValueError ''where size does not match x size'')
      else if \<not> broadcastable [length x, ydata_size y1, ydata_size y2]
      then raise (ValueError ''shape mismatch'')
      else emit (FillBetween ax x y1 y2 wh kw))"

section \<open>Floating-point error handling\<close>










section \<open>\<^verbatim>\<open>util.py\<close>: the plotting functions\<close>

text \<open>
  \<^verbatim>\<open>plot_equity_dd(time, equity, xlabel, ylabel, title, y_lim=0.0, log=False)\<close>.
  The body never reads \<^verbatim>\<open>xlabel\<close>, \<^verbatim>\<open>ylabel\<close> or \<^verbatim>\<open>title\<close>.
  \<^verbatim>\<open>if y_lim:\<close> tests the number for being non-zero. The parameter
  \<^verbatim>\<open>log\<close> is written \<open>log_flag\<close>. The error state is numpy's default, under
  which lines 6 to 8 return their arrays.
\<close>

definition plot_equity_dd ::
  "'x list \<Rightarrow> ndarray \<Rightarrow> string \<Rightarrow> string \<Rightarrow> string \<Rightarrow> rat \<Rightarrow> bool \<Rightarrow>
   ('x, npfloat) event list \<times> outcome" where
  "plot_equity_dd time equity xlabel ylabel title y_lim log_flag =
     exec
      ([emit (Subplots 1 1 False (16, 6)),
        ax_fill_between Ax1 time (Series (map Fin (array_values equity))) (Scalar (Fin 0)) None
          [(''color'', ''slateblue''), (''alpha'', ''0.3'')],
        ax_plot Ax1 time (map Fin (array_values equity))
          [(''color'', ''black''), (''linewidth'', ''1.2''), (''label'', ''Equity'')],
        emit (Twinx Ax1 Ax2),
        ax_fill_between Ax2 time (Scalar (Fin 0)) (Series (drawdown_pct equity))
          (Some (map (\<lambda>v. np_less v (Fin 0)) (drawdown_pct equity)))
          [(''color'', ''red''), (''alpha'', ''0.5''), (''label'', ''Drawdown (%)'')],
        emit (SetYLabel Ax1 ''Equity'' [(''color'', ''black'')]),
        emit (SetYLabel Ax2 ''Drawdown (%)'' [(''color'', ''black'')]),
        emit (TickParams Ax1 [(''axis'', ''y''), (''labelcolor'', ''black'')]),
        emit (TickParams Ax2 [(''axis'', ''y''), (''labelcolor'', ''black'')]),
        emit (Title ''Equity Curve with Drawdown (%) on Right Axis''),
        emit (Grid Ax1 True [])]
       @ (if log_flag then [emit (SetYScale Ax1 ''log'')] else [])
       @ (if y_lim \<noteq> 0 then [emit (SetYLim Ax1 y_lim)] else [])
       @ [emit TightLayout, emit Show])"

text \<open>\<^verbatim>\<open>plot_equity(x, y, xlabel="x", ylabel="y", title="title", log=False)\<close>.\<close>

definition plot_equity ::
  "'x list \<Rightarrow> 'y list \<Rightarrow> string \<Rightarrow> string \<Rightarrow> string \<Rightarrow> bool \<Rightarrow> ('x, 'y) event list \<times> outcome" where
  "plot_equity x y xlabel ylabel title log_flag =
     exec
      ([emit (Figure (12, 6)),
        ax_plot Pyplot x y [(''label'', ''Equity'')],
        emit (SetXLabel Pyplot xlabel),
        emit (SetYLabel Pyplot ylabel []),
        emit (Title title)]
       @ (if log_flag then [emit (SetYScale Pyplot ''log'')] else [])
       @ [emit (Grid Pyplot True
            [(''which'', ''major''), (''linestyle'', ''-''), (''linewidth'', ''0.75'')]),
          emit (Grid Pyplot True
            [(''which'', ''minor''), (''linestyle'', ''--''), (''linewidth'', ''0.5'')]),
          emit MinorticksOn,
          emit (Legend Pyplot []),
          emit TightLayout,
          emit Show])"

section \<open>\<^verbatim>\<open>plot_recorder.py\<close>: the CSV equity and position plotter\<close>

text \<open>
  What the script reads from its surroundings: the interpreter version (the comparison
  \<^verbatim>\<open>sys.version_info < (3, 7)\<close> is lexicographic and decided by major and minor),
  which packages import, the command line, what \<^verbatim>\<open>pd.read_csv\<close> returns for a path
  (a table, or the exception it raises), and how \<^verbatim>\<open>pd.to_datetime(..., unit='us')\<close>
  converts one cell (a calendar time, or the exception it raises). A table is a list of
  named columns; the cell type \<open>'c\<close> is left open.
\<close>

type_synonym 'c frame = "(string \<times> 'c list) list"

record 'c env =
  version_info :: "nat \<times> nat"
  importable :: "string \<Rightarrow> bool"
  argv :: "string list"
  read_csv :: "string \<Rightarrow> py_error + 'c frame"
  to_datetime_us :: "'c \<Rightarrow> py_error + 'c"

definition version_less :: "nat \<times> nat \<Rightarrow> nat \<times> nat \<Rightarrow> bool" where
  "version_less v w = (fst v < fst w \<or> (fst v = fst w \<and> snd v < snd w))"

fun join :: "string \<Rightarrow> string list \<Rightarrow> string" where
  "join sep [] = []"
| "join sep [s] = s"
| "join sep (s # t # ts) = s @ sep @ join sep (t # ts)"

text \<open>\<^verbatim>\<open>df[c]\<close> raises \<^verbatim>\<open>KeyError\<close> for a column the table does not have.\<close>

definition getitem :: "'c frame \<Rightarrow> string \<Rightarrow> py_error + 'c list" where
  "getitem df c = (case map_of df c of None \<Rightarrow> Inl (KeyError c) | Some col \<Rightarrow> Inr col)"

definition setitem :: "'c frame \<Rightarrow> string \<Rightarrow> 'c list \<Rightarrow> 'c frame" where
  "setitem df c col = AList.update c col df"

text \<open>A table as a CSV parser produces it: all columns have the same number of rows.\<close>

fun rectangular :: "'c frame \<Rightarrow> bool" where
  "rectangular [] = True"
| "rectangular ((c, col) # rest) = list_all (\<lambda>(c', col'). length col' = length col) rest"

fun to_datetime :: "('c \<Rightarrow> py_error + 'c) \<Rightarrow> 'c list \<Rightarrow> py_error + 'c list" where
  "to_datetime conv [] = Inr []"
| "to_datetime conv (v # vs) =
     (case conv v of
        Inl err \<Rightarrow> Inl err
      | Inr t \<Rightarrow> (case to_datetime conv vs of Inl err \<Rightarrow> Inl err | Inr ts \<Rightarrow> Inr (t # ts)))"

text \<open>Lines 1 to 3: the imports at the top of the file.\<close>

definition import_module :: "'c env \<Rightarrow> string \<Rightarrow> ('c, 'c) event list \<times> outcome" where
  "import_module e name = (if importable e name then skip else raise (ImportError name))"

text \<open>Lines 6 to 8.\<close>

definition check_version :: "'c env \<Rightarrow> ('c, 'c) event list \<times> outcome" where
  "check_version e =
     (if version_less (version_info e) (3, 7)
      then exec [emit (Print ''Python 3.7 or higher is required.''), sys_exit 1]
      else skip)"

text \<open>Lines 11 to 22.\<close>

definition check_packages :: "'c env \<Rightarrow> ('c, 'c) event list \<times> outcome" where
  "check_packages e =
     (let missing = filter (\<lambda>pkg. \<not> importable e pkg) [''matplotlib'', ''pandas'']
      in if missing \<noteq> []
         then exec [emit (Print (''Missing required packages: '' @ join '', '' missing)),
                    emit (Print (''Install them with: pip install '' @ join '' '' missing)),
                    sys_exit 1]
         else skip)"

text \<open>Lines 24 to 26.\<close>

definition check_usage :: "'c env \<Rightarrow> ('c, 'c) event list \<times> outcome" where
  "check_usage e =
     (if length (argv e) < 3
      then exec [emit (Print ''Usage: python plot_recorder.py <csv_filename> <asset_id>''),
                 sys_exit 1]
      else skip)"

text \<open>
  Line 35: \<^verbatim>\<open>df['timestamp'] = pd.to_datetime(df['timestamp'], unit='us')\<close>, on the
  table in memory.
\<close>

definition convert_timestamp :: "'c env \<Rightarrow> 'c frame \<Rightarrow> py_error + 'c frame" where
  "convert_timestamp e df =
     (case getitem df ''timestamp'' of
        Inl err \<Rightarrow> Inl err
      | Inr col \<Rightarrow>
          (case to_datetime (to_datetime_us e) col of
             Inl err \<Rightarrow> Inl err
           | Inr ts \<Rightarrow> Inr (setitem df ''timestamp'' ts)))"

text \<open>\<^verbatim>\<open>ax.plot(df[cx], df[cy], ...)\<close>: the arguments are evaluated left to right.\<close>

definition plot_columns ::
  "target \<Rightarrow> 'c frame \<Rightarrow> string \<Rightarrow> string \<Rightarrow> kwargs \<Rightarrow> ('c, 'c) event list \<times> outcome" where
  "plot_columns ax df cx cy kw =
     on_value (getitem df cx) (\<lambda>x. on_value (getitem df cy) (\<lambda>y. ax_plot ax x y kw))"

text \<open>Lines 37 to 73.\<close>

definition render :: "'c frame \<Rightarrow> string \<Rightarrow> ('c, 'c) event list \<times> outcome" where
  "render df asset_id =
     exec
      [emit (Subplots 2 1 True (14, 8)),
       plot_columns Ax1 df ''timestamp'' ''equity'' [(''label'', ''Equity'')],
       emit (SetYLabel Ax1 ''Equity'' []),
       emit (TickParams Ax1 [(''axis'', ''y'')]),
       emit (Legend Ax1 [(''loc'', ''upper left'')]),
       emit (Grid Ax1 True []),
       emit (Twinx Ax1 Ax1b),
       plot_columns Ax1b df ''timestamp'' ''mid_price''
         [(''color'', ''tab:gray''), (''alpha'', ''0.3''), (''label'', ''Price'')],
       emit (SetYLabel Ax1b ''Price'' []),
       emit (TickParams Ax1b [(''axis'', ''y'')]),
       emit (Legend Ax1b [(''loc'', ''upper right'')]),
       plot_columns Ax2 df ''timestamp'' ''position'' [(''label'', ''Position'')],
       emit (SetYLabel Ax2 ''Position'' []),
       emit (TickParams Ax2 [(''axis'', ''y'')]),
       emit (Legend Ax2 [(''loc'', ''upper left'')]),
       emit (Grid Ax2 True []),
       emit (Twinx Ax2 Ax2b),
       plot_columns Ax2b df ''timestamp'' ''mid_price''
         [(''color'', ''tab:gray''), (''alpha'', ''0.3''), (''label'', ''Price'')],
       emit (SetYLabel Ax2b ''Price'' []),
       emit (TickParams Ax2b [(''axis'', ''y'')]),
       emit (Legend Ax2b [(''loc'', ''upper right'')]),
       emit (SetXLabel Pyplot ''Timestamp''),
       emit (Suptitle (''Asset '' @ asset_id @ '' Equity and Position Over Time'')),
       emit TightLayout,
       emit Show]"

text \<open>Lines 28 to 73, reached with at least three entries in \<^verbatim>\<open>sys.argv\<close>.\<close>

definition load_and_plot :: "'c env \<Rightarrow> ('c, 'c) event list \<times> outcome" where
  "load_and_plot e =
     (let csv_filename = argv e ! 1;
          asset_id = argv e ! 2
      in exec
          [emit (FileRead csv_filename),
           on_value (read_csv e csv_filename) (\<lambda>df.
             on_value (convert_timestamp e df) (\<lambda>df'. render df' asset_id))])"

text \<open>The whole script, top to bottom.\<close>

definition plot_recorder :: "'c env \<Rightarrow> ('c, 'c) event list \<times> outcome" where
  "plot_recorder e =
     exec
      [import_module e ''pandas'',
       import_module e ''matplotlib'',
       check_version e,
       check_packages e,
       check_usage e,
       load_and_plot e]"

section \<open>Reading a run\<close>

text \<open>The calls of a run that set an axis label or a title.\<close>

fun label_event :: "('x, 'y) event \<Rightarrow> bool" where
  "label_event (SetXLabel ax s) = True"
| "label_event (SetYLabel ax s kw) = True"
| "label_event (Title s) = True"
| "label_event (Suptitle s) = True"
| "label_event e = False"

subsection \<open>Sample surroundings\<close>

text \<open>
  Two small tables with rational cells, one with all four columns and one without
  \<^verbatim>\<open>position\<close>, a conversion from microseconds to seconds that rejects negative
  values, and surroundings in which every package imports and the two tables are the
  files \<^verbatim>\<open>full.csv\<close> and \<^verbatim>\<open>no_position.csv\<close>.
\<close>

definition sample_conv :: "rat \<Rightarrow> py_error + rat" where
  "sample_conv c =
     (if c < 0 then Inl (ValueError ''out of bounds timestamp'') else Inr (c / 1000000))"

definition sample_frame :: "rat frame" where
  "sample_frame =
     [(''timestamp'', [1000000, 2000000]), (''equity'', [100, 101]),
      (''mid_price'', [50, 51]), (''position'', [0, 1])]"

definition no_position_frame :: "rat frame" where
  "no_position_frame =
     [(''timestamp'', [1000000, 2000000]), (''equity'', [100, 101]),
      (''mid_price'', [50, 51])]"

definition sample_env :: "nat \<times> nat \<Rightarrow> string list \<Rightarrow> rat env" where
  "sample_env ver args =
     \<lparr>version_info = ver,
      importable = (\<lambda>pkg. True),
      argv = args,
      read_csv = (\<lambda>path.
        if path = ''full.csv'' then Inr sample_frame
        else if path = ''no_position.csv'' then Inr no_position_frame
        else Inl (FileNotFoundError path)),
      to_datetime_us = sample_conv\<rparr>"

section \<open>Properties of the drawdown computation\<close>

lemma length_accumulate_from: "length (accumulate_from f m xs) = length xs"
  by (induction xs arbitrary: m) simp_all

lemma length_accumulate: "length (accumulate f xs) = length xs"
  by (cases xs) (simp_all add: length_accumulate_from)

lemma accumulate_from_lower: "y \<in> set (accumulate_from max m xs) \<Longrightarrow> (m :: rat) \<le> y"
proof (induction xs arbitrary: m)
  case Nil
  then show ?case by simp
next
  case (Cons x xs)
  from Cons.prems have "y = max m x \<or> y \<in> set (accumulate_from max (max m x) xs)"
    by simp
  then show ?case
  proof
    assume "y = max m x"
    then show ?thesis by simp
  next
    assume "y \<in> set (accumulate_from max (max m x) xs)"
    then have "max m x \<le> y" by (rule Cons.IH)
    then show ?thesis by simp
  qed
qed

lemma sorted_accumulate_from: "sorted (accumulate_from max (m :: rat) xs)"
  by (induction xs arbitrary: m) (auto dest: accumulate_from_lower)

lemma accumulate_from_dominates:
  "i < length xs \<Longrightarrow> xs ! i \<le> accumulate_from max (m :: rat) xs ! i"
proof (induction xs arbitrary: m i)
  case Nil
  then show ?case by simp
next
  case (Cons x xs)
  then show ?case by (cases i) simp_all
qed

lemma sorted_accumulate: "sorted (accumulate max (xs :: rat list))"
proof (cases xs)
  case Nil
  then show ?thesis by simp
next
  case (Cons y ys)
  then show ?thesis
    by (auto simp: sorted_accumulate_from dest: accumulate_from_lower)
qed

lemma accumulate_dominates: "i < length xs \<Longrightarrow> xs ! i \<le> accumulate max (xs :: rat list) ! i"
proof (cases xs)
  case Nil
  assume "i < length xs"
  with Nil show ?thesis by simp
next
  case (Cons y ys)
  assume "i < length xs"
  with Cons show ?thesis
    by (cases i) (simp_all add: accumulate_from_dominates)
qed

lemma accumulate_head: "xs \<noteq> [] \<Longrightarrow> accumulate f xs ! 0 = xs ! 0"
  by (cases xs) simp_all

lemma int64_value_le_iff: "int64_value a \<le> int64_value b \<longleftrightarrow> sint a \<le> sint b"
  by (simp only: int64_value_def of_int_le_iff)

lemma int64_value_nonpositive_iff: "int64_value a \<le> 0 \<longleftrightarrow> sint a \<le> 0"
  by (simp only: int64_value_def of_int_le_0_iff)

lemma int64_value_eq_iff: "int64_value a = int64_value b \<longleftrightarrow> a = b"
proof
  assume "int64_value a = int64_value b"
  then have "sint a = sint b"
    by (simp only: int64_value_def of_int_eq_iff)
  then show "a = b"
    by (rule signed_word_eqI)
qed simp

lemma int64_value_zero: "int64_value 0 = 0"
  by (simp add: int64_value_def)

lemma int64_value_zero_iff: "int64_value a = 0 \<longleftrightarrow> a = 0"
  using int64_value_eq_iff [of a 0] by (simp only: int64_value_zero)

lemma int64_value_maximum:
  "int64_value (maximum_int64 a b) = max (int64_value a) (int64_value b)"
  by (simp add: maximum_int64_def max_def int64_value_le_iff)

lemma map_accumulate_from:
  "map int64_value (accumulate_from maximum_int64 m ws) =
     accumulate_from max (int64_value m) (map int64_value ws)"
  by (induction ws arbitrary: m) (simp_all add: int64_value_maximum)

lemma map_accumulate:
  "map int64_value (accumulate maximum_int64 ws) = accumulate max (map int64_value ws)"
  by (cases ws) (simp_all add: map_accumulate_from)

lemma peak_values: "array_values (peak E) = accumulate max (array_values E)"
  by (cases E) (simp_all add: peak_def map_accumulate)

lemma array_size_values: "length (array_values E) = array_size E"
  by (cases E) simp_all

lemma array_size_peak: "array_size (peak E) = array_size E"
  by (cases E) (simp_all add: peak_def length_accumulate)

lemma length_drawdown: "length (drawdown E) = array_size E"
  by (cases E) (simp_all add: drawdown_def peak_def length_accumulate)

lemma length_drawdown_pct: "length (drawdown_pct E) = array_size E"
  by (simp add: drawdown_pct_def length_drawdown array_size_values array_size_peak)

text \<open>The running peak, as numbers, is the running maximum of the equity's numbers.\<close>

lemma sorted_peak: "sorted (array_values (peak E))"
  by (simp add: peak_values sorted_accumulate)

lemma peak_dominates:
  "i < array_size E \<Longrightarrow> array_values E ! i \<le> array_values (peak E) ! i"
  by (simp add: peak_values accumulate_dominates array_size_values)

lemma peak_head: "0 < array_size E \<Longrightarrow> array_values (peak E) ! 0 = array_values E ! 0"
  using array_size_values [of E] by (auto simp add: peak_values intro: accumulate_head)

lemma drawdown_pct_nth:
  "i < array_size E \<Longrightarrow>
   drawdown_pct E ! i =
     np_multiply (true_divide (drawdown E ! i) (array_values (peak E) ! i)) 100"
  by (simp add: drawdown_pct_def length_drawdown array_size_values array_size_peak)

lemma float64_overflow_pos: "0 < float64_overflow"
  by (simp add: float64_overflow_def)

lemma float64_result_zero_iff: "float64_result r = Fin 0 \<longleftrightarrow> r = 0"
  using float64_overflow_pos by (auto simp: float64_result_def)

lemma nonpositive_iff:
  "np_less_equal v (Fin 0) \<longleftrightarrow> v = NInf \<or> (\<exists>r\<le>0. v = Fin r)"
  by (cases v) (auto simp: np_less_equal_def)

lemma nonnegative_iff:
  "np_less_equal (Fin 0) v \<longleftrightarrow> v = PInf \<or> (\<exists>r\<ge>0. v = Fin r)"
  by (cases v) (auto simp: np_less_equal_def)

lemma float64_result_nonpositive: "r \<le> 0 \<Longrightarrow> np_less_equal (float64_result r) (Fin 0)"
  using float64_overflow_pos by (auto simp: float64_result_def nonpositive_iff)

lemma float64_result_nonnegative: "0 \<le> r \<Longrightarrow> np_less_equal (Fin 0) (float64_result r)"
  using float64_overflow_pos by (auto simp: float64_result_def nonnegative_iff)

lemma float64_result_nonpositive_cases:
  "r \<le> 0 \<Longrightarrow> float64_result r = NInf \<or> float64_result r = Fin r"
  using float64_overflow_pos by (auto simp: float64_result_def)

lemma float64_result_nonnegative_cases:
  "0 \<le> r \<Longrightarrow> float64_result r = PInf \<or> float64_result r = Fin r"
  using float64_overflow_pos by (auto simp: float64_result_def)

lemma float64_result_cases:
  "float64_result r = PInf \<or> float64_result r = NInf \<or> float64_result r = Fin r"
  by (auto simp: float64_result_def)

lemma sint_diff_exact:
  fixes a b :: "64 word"
  assumes "- (2 ^ 63) \<le> sint a - sint b" and "sint a - sint b < 2 ^ 63"
  shows "sint (a - b) = sint a - sint b"
  using assms by (simp add: sint_word_ariths signed_take_bit_int_eq_self)

lemma drawdown_zero_iff:
  assumes "i < array_size E"
  shows "drawdown E ! i = Fin 0 \<longleftrightarrow> array_values E ! i = array_values (peak E) ! i"
proof (cases E)
  case (Int64Array ws)
  with assms have i: "i < length ws" by simp
  have "drawdown E ! i = Fin (int64_value (ws ! i - accumulate maximum_int64 ws ! i))"
    using i Int64Array by (simp add: drawdown_def peak_def length_accumulate)
  moreover have "array_values E ! i = int64_value (ws ! i)"
    "array_values (peak E) ! i = int64_value (accumulate maximum_int64 ws ! i)"
    using i Int64Array by (simp_all add: peak_def length_accumulate)
  ultimately show ?thesis
    by (simp add: int64_value_zero_iff int64_value_eq_iff)
next
  case (Float64Array xs)
  with assms have i: "i < length xs" by simp
  have "drawdown E ! i = float64_result (xs ! i - accumulate max xs ! i)"
    using i Float64Array by (simp add: drawdown_def peak_def length_accumulate)
  moreover have "array_values E ! i = xs ! i" "array_values (peak E) ! i = accumulate max xs ! i"
    using Float64Array by (simp_all add: peak_def)
  ultimately show ?thesis
    by (simp add: float64_result_zero_iff)
qed

lemma drawdown_nonpositive:
  assumes "i < array_size E" and "subtraction_exact E i"
  shows "np_less_equal (drawdown E ! i) (Fin 0)"
proof (cases E)
  case (Int64Array ws)
  with assms have i: "i < length ws" by simp
  define a where "a = ws ! i"
  define b where "b = accumulate maximum_int64 ws ! i"
  have d: "drawdown E ! i = Fin (int64_value (a - b))"
    using i Int64Array by (simp add: drawdown_def peak_def length_accumulate a_def b_def)
  have "int64_value a \<le> int64_value b"
    using peak_dominates [OF assms(1)] i Int64Array
    by (simp add: peak_def length_accumulate a_def b_def)
  then have le: "sint a \<le> sint b"
    by (simp only: int64_value_le_iff)
  have lo: "- (2 ^ 63) \<le> sint a - sint b"
    using assms(2) Int64Array by (simp add: a_def b_def)
  have "sint (a - b) = sint a - sint b"
    using lo le by (intro sint_diff_exact) simp_all
  with le have "sint (a - b) \<le> 0"
    by simp
  then have "int64_value (a - b) \<le> 0"
    by (simp only: int64_value_nonpositive_iff)
  then show ?thesis
    by (auto simp: d nonpositive_iff)
next
  case (Float64Array xs)
  with assms have i: "i < length xs" by simp
  have d: "drawdown E ! i = float64_result (xs ! i - accumulate max xs ! i)"
    using i Float64Array by (simp add: drawdown_def peak_def length_accumulate)
  have "xs ! i \<le> accumulate max xs ! i"
    using i by (rule accumulate_dominates)
  then show ?thesis
    by (simp add: d float64_result_nonpositive)
qed

lemma nonpositive_peak_exact:
  assumes "i < array_size E" and "array_values (peak E) ! i \<le> 0"
  shows "subtraction_exact E i"
proof (cases E)
  case (Int64Array ws)
  with assms have i: "i < length ws" by simp
  have "int64_value (accumulate maximum_int64 ws ! i) \<le> 0"
    using assms(2) i Int64Array by (simp add: peak_def length_accumulate)
  then have "sint (accumulate maximum_int64 ws ! i) \<le> 0"
    by (simp only: int64_value_nonpositive_iff)
  moreover have "- (2 ^ 63) \<le> sint (ws ! i)"
    using sint_ge [of "ws ! i"] by simp
  ultimately show ?thesis
    using Int64Array by simp
next
  case (Float64Array xs)
  then show ?thesis by simp
qed

lemma percent_zero_iff:
  assumes "p \<noteq> 0"
  shows "np_multiply (true_divide d p) 100 = Fin 0 \<longleftrightarrow> d = Fin 0"
proof (cases d)
  case (Fin a)
  from float64_result_cases [of "a / p"] show ?thesis
  proof (elim disjE)
    assume "float64_result (a / p) = Fin (a / p)"
    with Fin assms show ?thesis
      by (simp add: float64_result_zero_iff)
  next
    assume q: "float64_result (a / p) = PInf"
    then have "a / p \<noteq> 0"
      using float64_result_zero_iff [of "a / p"] by auto
    with Fin assms q show ?thesis by simp
  next
    assume q: "float64_result (a / p) = NInf"
    then have "a / p \<noteq> 0"
      using float64_result_zero_iff [of "a / p"] by auto
    with Fin assms q show ?thesis by simp
  qed
qed (use assms in auto)

lemma times_100_nonpositive: "(q :: rat) \<le> 0 \<Longrightarrow> q * 100 \<le> 0"
  by linarith

lemma times_100_nonnegative: "0 \<le> (q :: rat) \<Longrightarrow> 0 \<le> q * 100"
  by linarith

lemma percent_nonpositive:
  assumes "0 < p" and "np_less_equal d (Fin 0)"
  shows "np_less_equal (np_multiply (true_divide d p) 100) (Fin 0)"
proof -
  from assms(2) consider "d = NInf" | r where "r \<le> 0" "d = Fin r"
    by (auto simp: nonpositive_iff)
  then show ?thesis
  proof cases
    case 1
    with assms(1) show ?thesis by (simp add: nonpositive_iff)
  next
    case 2
    with assms(1) have "r / p \<le> 0"
      by (simp add: divide_le_0_iff)
    then consider "float64_result (r / p) = NInf" | "float64_result (r / p) = Fin (r / p)"
      using float64_result_nonpositive_cases by blast
    then show ?thesis
    proof cases
      case 1
      with 2 assms(1) show ?thesis by (simp add: nonpositive_iff)
    next
      case b: 2
      from \<open>r / p \<le> 0\<close> have "r / p * 100 \<le> 0" by (rule times_100_nonpositive)
      then have "np_less_equal (float64_result (r / p * 100)) (Fin 0)"
        by (rule float64_result_nonpositive)
      with 2 b assms(1) show ?thesis by simp
    qed
  qed
qed

lemma percent_nonnegative:
  assumes "p < 0" and "np_less_equal d (Fin 0)"
  shows "np_less_equal (Fin 0) (np_multiply (true_divide d p) 100)"
proof -
  from assms(2) consider "d = NInf" | r where "r \<le> 0" "d = Fin r"
    by (auto simp: nonpositive_iff)
  then show ?thesis
  proof cases
    case 1
    with assms(1) show ?thesis by (simp add: nonnegative_iff)
  next
    case 2
    with assms(1) have "0 \<le> r / p"
      by (simp add: zero_le_divide_iff)
    then consider "float64_result (r / p) = PInf" | "float64_result (r / p) = Fin (r / p)"
      using float64_result_nonnegative_cases by blast
    then show ?thesis
    proof cases
      case 1
      with 2 assms(1) show ?thesis by (simp add: nonnegative_iff)
    next
      case b: 2
      from \<open>0 \<le> r / p\<close> have "0 \<le> r / p * 100" by (rule times_100_nonnegative)
      then have "np_less_equal (Fin 0) (float64_result (r / p * 100))"
        by (rule float64_result_nonnegative)
      with 2 b assms(1) show ?thesis by simp
    qed
  qed
qed

lemma percent_zero_peak:
  assumes "np_less_equal d (Fin 0)"
  shows "np_multiply (true_divide d 0) 100 = (if d = Fin 0 then NaN else NInf)"
proof -
  from assms consider "d = NInf" | "d = Fin 0" | r where "r < 0" "d = Fin r"
    by (auto simp: nonpositive_iff less_le)
  then show ?thesis
    by cases simp_all
qed

lemmas drawdown_eval =
  drawdown_pct_def drawdown_def peak_def maximum_int64_def int64_value_def
  float64_result_def float64_overflow_def

text \<open>
  C2. For every equity sequence of length at least one, the running peak is
  non-decreasing, lies on or above the equity at every index, and starts at the first
  equity value.
\<close>

theorem peak_running_maximum:
  assumes "0 < array_size E"
  shows "sorted (array_values (peak E)) \<and>
         (\<forall>i<array_size E. array_values E ! i \<le> array_values (peak E) ! i) \<and>
         array_values (peak E) ! 0 = array_values E ! 0"
  using assms by (simp add: sorted_peak peak_dominates peak_head)

theorem peak_running_maximum_witness:
  "0 < array_size (Float64Array [3, 1, 4, 1, 5]) \<and>
   sorted (array_values (peak (Float64Array [3, 1, 4, 1, 5]))) \<and>
   array_values (Float64Array [3, 1, 4, 1, 5]) ! 3 \<le>
     array_values (peak (Float64Array [3, 1, 4, 1, 5])) ! 3 \<and>
   array_values (peak (Float64Array [3, 1, 4, 1, 5])) ! 0 =
     array_values (Float64Array [3, 1, 4, 1, 5]) ! 0 \<and>
   peak (Float64Array [3, 1, 4, 1, 5]) = Float64Array [3, 3, 4, 4, 5] \<and>
   peak (Int64Array [3, 1, 4, 1, 5]) = Int64Array [3, 3, 4, 4, 5]"
proof -
  have h: "0 < array_size (Float64Array [3, 1, 4, 1, 5])"
    by simp
  have v: "peak (Float64Array [3, 1, 4, 1, 5]) = Float64Array [3, 3, 4, 4, 5]"
    "peak (Int64Array [3, 1, 4, 1, 5]) = Int64Array [3, 3, 4, 4, 5]"
    by (simp_all add: peak_def maximum_int64_def)
  from peak_running_maximum [OF h]
  have "\<forall>i<array_size (Float64Array [3, 1, 4, 1, 5]).
      array_values (Float64Array [3, 1, 4, 1, 5]) ! i \<le>
        array_values (peak (Float64Array [3, 1, 4, 1, 5])) ! i"
    by (rule conjunct1 [OF conjunct2])
  moreover have "3 < array_size (Float64Array [3, 1, 4, 1, 5])"
    by simp
  ultimately have "array_values (Float64Array [3, 1, 4, 1, 5]) ! 3 \<le>
      array_values (peak (Float64Array [3, 1, 4, 1, 5])) ! 3"
    by blast
  with peak_running_maximum [OF h] h v show ?thesis
    by blast
qed

text \<open>
  C1 (as stated, refuted). With equity \<open>-10, -20\<close> the peak stays at \<open>-10\<close> and the
  drawdown percent at index 1 is \<open>100\<close>, above zero. With the single equity value \<open>0\<close>
  the equity equals its peak and the drawdown percent is \<^verbatim>\<open>nan\<close>, not zero. With the
  \<^verbatim>\<open>int64\<close> equity \<open>2^63 - 1, -2\<close> the peak is positive, the subtraction of line 7
  wraps around to \<open>2^63 - 1\<close>, and the drawdown percent at index 1 is \<open>100\<close>.
\<close>

theorem drawdown_pct_sign_counterexample:
  "drawdown_pct (Float64Array [- 10, - 20]) = [Fin 0, Fin 100] \<and>
   \<not> np_less_equal (drawdown_pct (Float64Array [- 10, - 20]) ! 1) (Fin 0) \<and>
   array_values (Float64Array [0]) ! 0 = array_values (peak (Float64Array [0])) ! 0 \<and>
   drawdown_pct (Float64Array [0]) ! 0 \<noteq> Fin 0 \<and>
   array_values (peak (Int64Array [9223372036854775807, - 2])) ! 1 = 9223372036854775807 \<and>
   drawdown_pct (Int64Array [9223372036854775807, - 2]) = [Fin 0, Fin 100] \<and>
   \<not> np_less_equal (drawdown_pct (Int64Array [9223372036854775807, - 2]) ! 1) (Fin 0)"
  by (simp add: drawdown_eval np_less_equal_def)

text \<open>
  C1 (amended). For every equity sequence and every index: where the running peak is not
  zero, the drawdown percent is zero exactly when the equity equals the running peak;
  where the running peak is positive and the subtraction of line 7 does not wrap around,
  the drawdown percent is at most zero.
\<close>

theorem drawdown_pct_nonpositive:
  assumes "i < array_size E"
  shows "(array_values (peak E) ! i \<noteq> 0 \<longrightarrow>
            (drawdown_pct E ! i = Fin 0 \<longleftrightarrow> array_values E ! i = array_values (peak E) ! i)) \<and>
         (0 < array_values (peak E) ! i \<and> subtraction_exact E i \<longrightarrow>
            np_less_equal (drawdown_pct E ! i) (Fin 0))"
proof (intro conjI impI)
  assume "array_values (peak E) ! i \<noteq> 0"
  then show "drawdown_pct E ! i = Fin 0 \<longleftrightarrow> array_values E ! i = array_values (peak E) ! i"
    using assms by (simp add: drawdown_pct_nth percent_zero_iff drawdown_zero_iff)
next
  assume "0 < array_values (peak E) ! i \<and> subtraction_exact E i"
  then show "np_less_equal (drawdown_pct E ! i) (Fin 0)"
    using assms by (simp add: drawdown_pct_nth percent_nonpositive drawdown_nonpositive)
qed

theorem drawdown_pct_nonpositive_witness:
  "2 < array_size (Int64Array [100, 110, 90]) \<and>
   array_values (peak (Int64Array [100, 110, 90])) ! 2 = 110 \<and>
   subtraction_exact (Int64Array [100, 110, 90]) 2 \<and>
   array_values (Int64Array [100, 110, 90]) ! 2 \<noteq> array_values (peak (Int64Array [100, 110, 90])) ! 2 \<and>
   drawdown_pct (Int64Array [100, 110, 90]) ! 2 \<noteq> Fin 0 \<and>
   np_less_equal (drawdown_pct (Int64Array [100, 110, 90]) ! 2) (Fin 0)"
proof -
  have h1: "2 < array_size (Int64Array [100, 110, 90])"
    by simp
  have h2: "array_values (peak (Int64Array [100, 110, 90])) ! 2 = 110"
    by (simp add: peak_def maximum_int64_def int64_value_def)
  have h3: "subtraction_exact (Int64Array [100, 110, 90]) 2"
    by (simp add: maximum_int64_def)
  have h4: "array_values (Int64Array [100, 110, 90]) ! 2 \<noteq>
      array_values (peak (Int64Array [100, 110, 90])) ! 2"
    by (simp add: peak_def maximum_int64_def int64_value_def)
  have p: "array_values (peak (Int64Array [100, 110, 90])) ! 2 \<noteq> 0"
    "0 < array_values (peak (Int64Array [100, 110, 90])) ! 2"
    by (simp_all add: h2)
  from drawdown_pct_nonpositive [OF h1] h1 h2 h3 h4 p show ?thesis
    by blast
qed

text \<open>
  C3. On the equity \<open>100, 110, 90, 95, 120\<close> the running peak is
  \<open>100, 110, 110, 110, 120\<close>, the drawdown is \<open>0, 0, -20, -15, 0\<close>, and the drawdown
  percent is \<open>0, 0, -200/11, -150/11, 0\<close>, which is \<open>0, 0, -18.18, -13.64, 0\<close> to two
  decimal places. On the single equity value \<open>50\<close> the three sequences are \<open>50\<close>,
  \<open>0\<close> and \<open>0\<close>. Both hold for either element type.
\<close>

theorem drawdown_scenarios:
  "peak (Float64Array [100, 110, 90, 95, 120]) = Float64Array [100, 110, 110, 110, 120] \<and>
   drawdown (Float64Array [100, 110, 90, 95, 120]) = [Fin 0, Fin 0, Fin (- 20), Fin (- 15), Fin 0] \<and>
   drawdown_pct (Float64Array [100, 110, 90, 95, 120]) =
     [Fin 0, Fin 0, Fin (- 200 / 11), Fin (- 150 / 11), Fin 0] \<and>
   map round_2dp (drawdown_pct (Float64Array [100, 110, 90, 95, 120])) =
     [Fin 0, Fin 0, Fin (- 1818 / 100), Fin (- 1364 / 100), Fin 0] \<and>
   peak (Float64Array [50]) = Float64Array [50] \<and> drawdown (Float64Array [50]) = [Fin 0] \<and>
   drawdown_pct (Float64Array [50]) = [Fin 0] \<and>
   peak (Int64Array [100, 110, 90, 95, 120]) = Int64Array [100, 110, 110, 110, 120] \<and>
   drawdown (Int64Array [100, 110, 90, 95, 120]) = [Fin 0, Fin 0, Fin (- 20), Fin (- 15), Fin 0] \<and>
   drawdown_pct (Int64Array [100, 110, 90, 95, 120]) =
     [Fin 0, Fin 0, Fin (- 200 / 11), Fin (- 150 / 11), Fin 0] \<and>
   peak (Int64Array [50]) = Int64Array [50] \<and> drawdown (Int64Array [50]) = [Fin 0] \<and>
   drawdown_pct (Int64Array [50]) = [Fin 0]"
proof -
  have p: "peak (Float64Array [100, 110, 90, 95, 120]) = Float64Array [100, 110, 110, 110, 120]"
    "peak (Int64Array [100, 110, 90, 95, 120]) = Int64Array [100, 110, 110, 110, 120]"
    by (simp_all add: drawdown_eval)
  have d: "drawdown (Float64Array [100, 110, 90, 95, 120]) =
      [Fin 0, Fin 0, Fin (- 20), Fin (- 15), Fin 0]"
    "drawdown (Int64Array [100, 110, 90, 95, 120]) = [Fin 0, Fin 0, Fin (- 20), Fin (- 15), Fin 0]"
    by (simp_all add: drawdown_eval)
  have pct: "drawdown_pct (Float64Array [100, 110, 90, 95, 120]) =
      [Fin 0, Fin 0, Fin (- 200 / 11), Fin (- 150 / 11), Fin 0]"
    "drawdown_pct (Int64Array [100, 110, 90, 95, 120]) =
      [Fin 0, Fin 0, Fin (- 200 / 11), Fin (- 150 / 11), Fin 0]"
    by (simp_all add: drawdown_eval)
  have "map round_2dp [Fin 0, Fin 0, Fin (- 200 / 11), Fin (- 150 / 11), Fin 0] =
      [Fin 0, Fin 0, Fin (- 1818 / 100), Fin (- 1364 / 100), Fin 0]"
    by code_simp
  then have r: "map round_2dp (drawdown_pct (Float64Array [100, 110, 90, 95, 120])) =
      [Fin 0, Fin 0, Fin (- 1818 / 100), Fin (- 1364 / 100), Fin 0]"
    by (simp only: pct)
  have s: "peak (Float64Array [50]) = Float64Array [50]" "drawdown (Float64Array [50]) = [Fin 0]"
    "drawdown_pct (Float64Array [50]) = [Fin 0]"
    "peak (Int64Array [50]) = Int64Array [50]" "drawdown (Int64Array [50]) = [Fin 0]"
    "drawdown_pct (Int64Array [50]) = [Fin 0]"
    by (simp_all add: drawdown_eval)
  from p d pct r s show ?thesis by blast
qed

text \<open>
  C4. The division by the running peak is carried out whatever the sign of the peak.
  At an index where the running peak is zero the drawdown percent is not a finite number
  (\<^verbatim>\<open>nan\<close> when the equity is zero there, \<^verbatim>\<open>-inf\<close> otherwise); at an index
  where it is negative the drawdown percent is at least zero. The equity \<open>0, -5\<close> has
  such an index.
\<close>

theorem drawdown_pct_unguarded:
  assumes "i < array_size E" and "array_values (peak E) ! i \<le> 0"
  shows "(array_values (peak E) ! i = 0 \<longrightarrow>
            \<not> is_finite (drawdown_pct E ! i) \<and>
            drawdown_pct E ! i = (if array_values E ! i = 0 then NaN else NInf)) \<and>
         (array_values (peak E) ! i < 0 \<longrightarrow> np_less_equal (Fin 0) (drawdown_pct E ! i))"
proof -
  have d: "np_less_equal (drawdown E ! i) (Fin 0)"
    using assms by (intro drawdown_nonpositive nonpositive_peak_exact)
  show ?thesis
  proof (intro conjI impI)
    assume z: "array_values (peak E) ! i = 0"
    have "drawdown_pct E ! i = (if drawdown E ! i = Fin 0 then NaN else NInf)"
      using assms(1) z d by (simp add: drawdown_pct_nth percent_zero_peak)
    then show v: "drawdown_pct E ! i = (if array_values E ! i = 0 then NaN else NInf)"
      using assms(1) z by (simp add: drawdown_zero_iff)
    show "\<not> is_finite (drawdown_pct E ! i)"
      by (simp add: v)
  next
    assume "array_values (peak E) ! i < 0"
    then show "np_less_equal (Fin 0) (drawdown_pct E ! i)"
      using assms(1) d by (simp add: drawdown_pct_nth percent_nonnegative)
  qed
qed

theorem drawdown_pct_unguarded_witness:
  "1 < array_size (Float64Array [0, - 5]) \<and>
   array_values (peak (Float64Array [0, - 5])) ! 1 = 0 \<and>
   \<not> is_finite (drawdown_pct (Float64Array [0, - 5]) ! 1) \<and>
   drawdown_pct (Float64Array [0, - 5]) ! 1 = NInf \<and>
   drawdown_pct (Float64Array [0, - 5]) = [NaN, NInf] \<and>
   drawdown_pct (Int64Array [0, - 5]) = [NaN, NInf]"
proof -
  have h1: "1 < array_size (Float64Array [0, - 5])"
    by simp
  have h2: "array_values (peak (Float64Array [0, - 5])) ! 1 = 0"
    by (simp add: peak_def)
  have h3: "drawdown_pct (Float64Array [0, - 5]) = [NaN, NInf]"
    "drawdown_pct (Int64Array [0, - 5]) = [NaN, NInf]"
    by (simp_all add: drawdown_eval)
  have "array_values (peak (Float64Array [0, - 5])) ! 1 \<le> 0"
    using h2 by simp
  from drawdown_pct_unguarded [OF h1 this] h1 h2 h3 show ?thesis
    by simp
qed

subsection \<open>The computation under an error state\<close>








section \<open>Properties of the plotting functions\<close>

lemma exec_emit: "exec (emit e # ss) = (case exec ss of (evs, out) \<Rightarrow> (e # evs, out))"
  by (simp add: emit_def split: prod.splits)

lemma exec_raise: "exec (raise err # ss) = ([], Raised err)"
  by (simp add: raise_def)

lemma exec_sys_exit: "exec (sys_exit n # ss) = ([], SysExit n)"
  by (simp add: sys_exit_def)

lemma exec_skip: "exec (skip # ss) = exec ss"
  by (simp add: skip_def)

lemma exec_stop_raised: "exec ((evs, Raised err) # ss) = (evs, Raised err)"
  by simp

lemma exec_stop_exit: "exec ((evs, SysExit n) # ss) = (evs, SysExit n)"
  by simp

lemma exec_single: "exec [s] = s"
  by (cases s, cases "snd s") simp_all

lemma set_exec: "ev \<in> set (fst (exec ss)) \<Longrightarrow> \<exists>s\<in>set ss. ev \<in> set (fst s)"
proof (induction ss)
  case Nil
  then show ?case by simp
next
  case (Cons s ss)
  show ?case
  proof (cases "snd s")
    case Returned
    with Cons.prems have "ev \<in> set (fst s) \<or> ev \<in> set (fst (exec ss))"
      by simp
    with Cons.IH show ?thesis by auto
  next
    case (Raised err)
    with Cons.prems show ?thesis by simp
  next
    case (SysExit n)
    with Cons.prems show ?thesis by simp
  qed
qed

declare exec.simps(2) [simp del]

lemmas exec_simps =
  exec_emit exec_raise exec_sys_exit exec_skip exec_stop_raised exec_stop_exit

lemma ax_plot_ok: "length x = length y \<Longrightarrow> ax_plot ax x y kw = emit (Plot ax x y kw)"
  by (simp add: ax_plot_def)

lemma ax_plot_mismatch:
  "length x \<noteq> length y \<Longrightarrow>
   ax_plot ax x y kw = raise (ValueError ''x and y must have same first dimension'')"
  by (simp add: ax_plot_def)

lemma fill_under_series:
  "length x = n \<Longrightarrow> length ys = n \<Longrightarrow>
   ax_fill_between ax x (Series ys) (Scalar c) None kw =
     emit (FillBetween ax x (Series ys) (Scalar c) None kw)"
  by (simp add: ax_fill_between_def broadcastable_def)

lemma fill_masked_series:
  "length x = n \<Longrightarrow> length ys = n \<Longrightarrow> length w = n \<Longrightarrow>
   ax_fill_between ax x (Scalar c) (Series ys) (Some w) kw =
     emit (FillBetween ax x (Scalar c) (Series ys) (Some w) kw)"
  by (simp add: ax_fill_between_def broadcastable_def)

text \<open>The complete run of \<^verbatim>\<open>plot_equity_dd\<close> on sequences of equal length.\<close>

lemma plot_equity_dd_run:
  assumes "length time = array_size E"
  shows "plot_equity_dd time E xl yl t ylim lg =
     ([Subplots 1 1 False (16, 6),
       FillBetween Ax1 time (Series (map Fin (array_values E))) (Scalar (Fin 0)) None
         [(''color'', ''slateblue''), (''alpha'', ''0.3'')],
       Plot Ax1 time (map Fin (array_values E))
         [(''color'', ''black''), (''linewidth'', ''1.2''), (''label'', ''Equity'')],
       Twinx Ax1 Ax2,
       FillBetween Ax2 time (Scalar (Fin 0)) (Series (drawdown_pct E))
         (Some (map (\<lambda>v. np_less v (Fin 0)) (drawdown_pct E)))
         [(''color'', ''red''), (''alpha'', ''0.5''), (''label'', ''Drawdown (%)'')],
       SetYLabel Ax1 ''Equity'' [(''color'', ''black'')],
       SetYLabel Ax2 ''Drawdown (%)'' [(''color'', ''black'')],
       TickParams Ax1 [(''axis'', ''y''), (''labelcolor'', ''black'')],
       TickParams Ax2 [(''axis'', ''y''), (''labelcolor'', ''black'')],
       Title ''Equity Curve with Drawdown (%) on Right Axis'',
       Grid Ax1 True []]
      @ (if lg then [SetYScale Ax1 ''log''] else [])
      @ (if ylim \<noteq> 0 then [SetYLim Ax1 ylim] else [])
      @ [TightLayout, Show], Returned)"
  using assms
  by (simp add: plot_equity_dd_def exec_simps ax_plot_ok
      fill_under_series [where n = "array_size E"]
      fill_masked_series [where n = "array_size E"] length_drawdown_pct array_size_values)

text \<open>
  C7. For all sequences \<open>x\<close> and \<open>y\<close> of different lengths, \<^verbatim>\<open>plot_equity\<close> ends with
  the length error of the plotting call, after the figure was created and before anything
  else: the run holds no plotted line and no \<^verbatim>\<open>show\<close>.
\<close>

theorem plot_equity_length_mismatch:
  assumes "length x \<noteq> length y"
  shows "plot_equity x y xl yl t lg =
           ([Figure (12, 6)], Raised (ValueError ''x and y must have same first dimension'')) \<and>
         Show \<notin> set (fst (plot_equity x y xl yl t lg))"
  using assms by (simp add: plot_equity_def exec_simps ax_plot_mismatch)

theorem plot_equity_length_mismatch_witness:
  "length [1, 2, 3, 4, 5 :: nat] \<noteq> length [10, 20, 30, 40 :: rat] \<and>
   plot_equity [1, 2, 3, 4, 5 :: nat] [10, 20, 30, 40 :: rat] ''x'' ''y'' ''title'' False =
     ([Figure (12, 6)], Raised (ValueError ''x and y must have same first dimension'')) \<and>
   Show \<notin> set (fst (plot_equity [1, 2, 3, 4, 5 :: nat] [10, 20, 30, 40 :: rat]
     ''x'' ''y'' ''title'' False))"
proof -
  have h: "length [1, 2, 3, 4, 5 :: nat] \<noteq> length [10, 20, 30, 40 :: rat]"
    by simp
  from plot_equity_length_mismatch [OF h] h show ?thesis
    by blast
qed

text \<open>
  C10. The run of \<^verbatim>\<open>plot_equity_dd\<close> does not depend on \<^verbatim>\<open>xlabel\<close>,
  \<^verbatim>\<open>ylabel\<close> and \<^verbatim>\<open>title\<close>: two calls that differ only there give the same
  run. On sequences of equal length, the labels and title it sets are the fixed strings
  "Equity", "Drawdown (%)" and "Equity Curve with Drawdown (%) on Right Axis", and no
  others.
\<close>

theorem plot_equity_dd_ignores_labels:
  "plot_equity_dd time E xl yl t ylim lg = plot_equity_dd time E xl' yl' t' ylim lg \<and>
   (length time = array_size E \<longrightarrow>
      filter label_event (fst (plot_equity_dd time E xl yl t ylim lg)) =
        [SetYLabel Ax1 ''Equity'' [(''color'', ''black'')],
         SetYLabel Ax2 ''Drawdown (%)'' [(''color'', ''black'')],
         Title ''Equity Curve with Drawdown (%) on Right Axis''])"
  by (simp add: plot_equity_dd_run) (simp add: plot_equity_dd_def)

theorem plot_equity_dd_ignores_labels_witness:
  "length [1, 2 :: nat] = array_size (Float64Array [100, 90]) \<and>
   plot_equity_dd [1, 2 :: nat] (Float64Array [100, 90]) ''time'' ''usd'' ''my title'' 0 False =
     plot_equity_dd [1, 2 :: nat] (Float64Array [100, 90]) ''t'' ''eur'' ''other'' 0 False \<and>
   filter label_event
     (fst (plot_equity_dd [1, 2 :: nat] (Float64Array [100, 90])
        ''time'' ''usd'' ''my title'' 0 False)) =
     [SetYLabel Ax1 ''Equity'' [(''color'', ''black'')],
      SetYLabel Ax2 ''Drawdown (%)'' [(''color'', ''black'')],
      Title ''Equity Curve with Drawdown (%) on Right Axis'']"
proof -
  have h: "length [1, 2 :: nat] = array_size (Float64Array [100, 90])"
    by simp
  from plot_equity_dd_ignores_labels [of "[1, 2 :: nat]" "Float64Array [100, 90]"
      "''time''" "''usd''" "''my title''" 0 False "''t''" "''eur''" "''other''"] h
  show ?thesis
    by blast
qed

section \<open>Properties of the CSV plotter\<close>

lemma check_packages_ok:
  "importable e ''pandas'' \<Longrightarrow> importable e ''matplotlib'' \<Longrightarrow> check_packages e = skip"
  by (simp add: check_packages_def)

lemma length_to_datetime: "to_datetime conv xs = Inr ys \<Longrightarrow> length ys = length xs"
  by (induction xs arbitrary: ys) (auto split: sum.splits)

lemma rectangular_lengths:
  assumes "rectangular df" and "map_of df a = Some x" and "map_of df b = Some y"
  shows "length x = length y"
proof (cases df)
  case Nil
  with assms(2) show ?thesis by simp
next
  case (Cons p rest)
  obtain c col where p: "p = (c, col)"
    by (cases p)
  have rest: "\<forall>(k, v)\<in>set rest. length v = length col"
    using assms(1) Cons p by (simp add: list_all_iff)
  have mem: "length v = length col" if "(k, v) \<in> set df" for k v
    using that rest Cons p by auto
  from assms(2) have "(a, x) \<in> set df"
    by (rule map_of_SomeD)
  moreover from assms(3) have "(b, y) \<in> set df"
    by (rule map_of_SomeD)
  ultimately show ?thesis
    using mem by simp
qed

lemma getitem_setitem:
  "getitem (setitem df k v) c = (if c = k then Inr v else getitem df c)"
  by (simp add: getitem_def setitem_def update_conv')

lemma plot_columns_ok:
  "getitem df cx = Inr x \<Longrightarrow> getitem df cy = Inr y \<Longrightarrow> length x = length y \<Longrightarrow>
   plot_columns ax df cx cy kw = emit (Plot ax x y kw)"
  by (simp add: plot_columns_def on_value_def ax_plot_ok)

lemma plot_columns_missing:
  "getitem df cx = Inr x \<Longrightarrow> getitem df cy = Inl err \<Longrightarrow>
   plot_columns ax df cx cy kw = raise err"
  by (simp add: plot_columns_def on_value_def)

lemma plot_columns_events:
  "ev \<in> set (fst (plot_columns ax df cx cy kw)) \<Longrightarrow>
   \<exists>x y. ev = Plot ax x y kw \<and> getitem df cx = Inr x \<and> getitem df cy = Inr y"
  by (auto simp: plot_columns_def on_value_def ax_plot_def raise_def emit_def
      split: sum.splits if_splits)

lemma plot_columns_events_pair:
  "(evs, out) = plot_columns ax df cx cy kw \<Longrightarrow> ev \<in> set evs \<Longrightarrow>
   \<exists>x y. ev = Plot ax x y kw \<and> getitem df cx = Inr x \<and> getitem df cy = Inr y"
  using plot_columns_events [of ev ax df cx cy kw]
  by (cases "plot_columns ax df cx cy kw") auto

lemma render_plots:
  assumes "Plot ax x y kw \<in> set (fst (render df a))"
  shows "getitem df ''timestamp'' = Inr x \<and>
         ((ax = Ax1 \<and> getitem df ''equity'' = Inr y) \<or>
          (ax = Ax1b \<and> getitem df ''mid_price'' = Inr y) \<or>
          (ax = Ax2 \<and> getitem df ''position'' = Inr y) \<or>
          (ax = Ax2b \<and> getitem df ''mid_price'' = Inr y))"
  using assms unfolding render_def
  by (auto simp: emit_def dest!: set_exec dest: plot_columns_events_pair)

lemma render_no_write: "FileWrite path \<notin> set (fst (render df a))"
  unfolding render_def
  by (auto simp: emit_def dest!: set_exec dest: plot_columns_events_pair)

lemma startup_events:
  assumes "ev \<in> set (fst s)"
    and "s \<in> {import_module e ''pandas'', import_module e ''matplotlib'', check_version e,
               check_packages e, check_usage e}"
  shows "\<exists>msg. ev = Print msg"
  using assms
  by (auto simp: import_module_def check_version_def check_packages_def check_usage_def
      skip_def raise_def exec_simps Let_def split: if_splits)

lemma load_and_plot_events:
  assumes "ev \<in> set (fst (load_and_plot e))"
  shows "ev = FileRead (argv e ! 1) \<or>
         (\<exists>df df'. read_csv e (argv e ! 1) = Inr df \<and> convert_timestamp e df = Inr df' \<and>
            ev \<in> set (fst (render df' (argv e ! 2))))"
  using assms
  by (auto simp: load_and_plot_def Let_def exec_simps exec_single on_value_def raise_def
      case_prod_unfold split: sum.splits)

lemma plot_recorder_events:
  assumes "ev \<in> set (fst (plot_recorder e))"
  shows "(\<exists>msg. ev = Print msg) \<or> ev = FileRead (argv e ! 1) \<or>
         (\<exists>df df'. read_csv e (argv e ! 1) = Inr df \<and> convert_timestamp e df = Inr df' \<and>
            ev \<in> set (fst (render df' (argv e ! 2))))"
proof -
  from assms obtain s where s: "s \<in> set [import_module e ''pandas'',
       import_module e ''matplotlib'', check_version e, check_packages e, check_usage e,
       load_and_plot e]" and ev: "ev \<in> set (fst s)"
    unfolding plot_recorder_def by (blast dest: set_exec)
  show ?thesis
  proof (cases "s = load_and_plot e")
    case True
    with ev show ?thesis
      by (auto dest: load_and_plot_events)
  next
    case False
    with s have "s \<in> {import_module e ''pandas'', import_module e ''matplotlib'',
       check_version e, check_packages e, check_usage e}"
      by auto
    with ev show ?thesis
      by (auto dest: startup_events)
  qed
qed

lemma convert_timestamp_frame:
  assumes "convert_timestamp e df = Inr df'"
  shows "\<exists>ts ts'. map_of df ''timestamp'' = Some ts \<and>
           to_datetime (to_datetime_us e) ts = Inr ts' \<and>
           map_of df' = (map_of df)(''timestamp'' \<mapsto> ts')"
  using assms
  by (auto simp: convert_timestamp_def getitem_def setitem_def update_conv'
      split: option.splits sum.splits)

text \<open>The run of the script once the startup checks have passed.\<close>

lemma plot_recorder_started:
  assumes "importable e ''pandas''" and "importable e ''matplotlib''"
    and "\<not> version_less (version_info e) (3, 7)"
    and "3 \<le> length (argv e)"
    and "read_csv e (argv e ! 1) = Inr df"
    and "convert_timestamp e df = Inr df'"
  shows "plot_recorder e =
           (FileRead (argv e ! 1) # fst (render df' (argv e ! 2)),
            snd (render df' (argv e ! 2)))"
  using assms
  by (simp add: plot_recorder_def import_module_def check_version_def check_packages_ok
      check_usage_def load_and_plot_def on_value_def exec_simps exec_single Let_def
      case_prod_unfold)

text \<open>
  C5. When the script has started and read a table that has the columns
  \<^verbatim>\<open>timestamp\<close> (convertible), \<^verbatim>\<open>equity\<close> and \<^verbatim>\<open>mid_price\<close> but no column
  \<^verbatim>\<open>position\<close>, it ends with the missing-column error (\<^verbatim>\<open>KeyError\<close>) for
  \<^verbatim>\<open>position\<close>, and \<^verbatim>\<open>show\<close> is not among its calls.
\<close>

theorem missing_position_column:
  assumes imp: "importable e ''pandas''" "importable e ''matplotlib''"
    and ver: "\<not> version_less (version_info e) (3, 7)"
    and args: "3 \<le> length (argv e)"
    and rd: "read_csv e (argv e ! 1) = Inr df"
    and rect: "rectangular df"
    and ts: "map_of df ''timestamp'' = Some ts" "to_datetime (to_datetime_us e) ts = Inr ts'"
    and eq: "map_of df ''equity'' = Some eq"
    and mid: "map_of df ''mid_price'' = Some mid"
    and pos: "map_of df ''position'' = None"
  shows "snd (plot_recorder e) = Raised (KeyError ''position'') \<and>
         Show \<notin> set (fst (plot_recorder e))"
proof -
  define df' where "df' = setitem df ''timestamp'' ts'"
  have conv: "convert_timestamp e df = Inr df'"
    using ts by (simp add: convert_timestamp_def getitem_def df'_def)
  have len: "length ts' = length eq" "length ts' = length mid"
    using length_to_datetime [OF ts(2)] rectangular_lengths [OF rect ts(1) eq]
      rectangular_lengths [OF rect ts(1) mid] by simp_all
  have g: "getitem df' ''timestamp'' = Inr ts'" "getitem df' ''equity'' = Inr eq"
    "getitem df' ''mid_price'' = Inr mid"
    "getitem df' ''position'' = Inl (KeyError ''position'')"
    using eq mid pos by (simp_all add: df'_def getitem_setitem) (simp_all add: getitem_def)
  have r: "render df' (argv e ! 2) =
     ([Subplots 2 1 True (14, 8),
       Plot Ax1 ts' eq [(''label'', ''Equity'')],
       SetYLabel Ax1 ''Equity'' [],
       TickParams Ax1 [(''axis'', ''y'')],
       Legend Ax1 [(''loc'', ''upper left'')],
       Grid Ax1 True [],
       Twinx Ax1 Ax1b,
       Plot Ax1b ts' mid [(''color'', ''tab:gray''), (''alpha'', ''0.3''), (''label'', ''Price'')],
       SetYLabel Ax1b ''Price'' [],
       TickParams Ax1b [(''axis'', ''y'')],
       Legend Ax1b [(''loc'', ''upper right'')]], Raised (KeyError ''position''))"
    unfolding render_def
    by (simp add: exec_simps plot_columns_ok [OF g(1) g(2) len(1)]
        plot_columns_ok [OF g(1) g(3) len(2)] plot_columns_missing [OF g(1) g(4)])
  show ?thesis
    by (simp add: plot_recorder_started [OF imp ver args rd conv] r)
qed

theorem missing_position_column_witness:
  "importable (sample_env (3, 11) [''plot_recorder.py'', ''no_position.csv'', ''BTC'']) ''pandas'' \<and>
   \<not> version_less
       (version_info (sample_env (3, 11) [''plot_recorder.py'', ''no_position.csv'', ''BTC'']))
       (3, 7) \<and>
   read_csv (sample_env (3, 11) [''plot_recorder.py'', ''no_position.csv'', ''BTC''])
     (argv (sample_env (3, 11) [''plot_recorder.py'', ''no_position.csv'', ''BTC'']) ! 1) =
     Inr no_position_frame \<and>
   rectangular no_position_frame \<and>
   map_of no_position_frame ''position'' = None \<and>
   snd (plot_recorder (sample_env (3, 11) [''plot_recorder.py'', ''no_position.csv'', ''BTC''])) =
     Raised (KeyError ''position'') \<and>
   Show \<notin> set (fst (plot_recorder
     (sample_env (3, 11) [''plot_recorder.py'', ''no_position.csv'', ''BTC''])))"
proof -
  define e where "e = sample_env (3, 11) [''plot_recorder.py'', ''no_position.csv'', ''BTC'']"
  have imp: "importable e ''pandas''" "importable e ''matplotlib''"
    by (simp_all add: e_def sample_env_def)
  have ver: "\<not> version_less (version_info e) (3, 7)"
    by (simp add: e_def sample_env_def version_less_def)
  have args: "3 \<le> length (argv e)"
    by (simp add: e_def sample_env_def)
  have rd: "read_csv e (argv e ! 1) = Inr no_position_frame"
    by (simp add: e_def sample_env_def)
  have rect: "rectangular no_position_frame"
    by (simp add: no_position_frame_def)
  have ts: "map_of no_position_frame ''timestamp'' = Some [1000000, 2000000]"
    "to_datetime (to_datetime_us e) [1000000, 2000000] = Inr [1, 2]"
    by (simp_all add: no_position_frame_def e_def sample_env_def sample_conv_def)
  have eq: "map_of no_position_frame ''equity'' = Some [100, 101]"
    by (simp add: no_position_frame_def)
  have mid: "map_of no_position_frame ''mid_price'' = Some [50, 51]"
    by (simp add: no_position_frame_def)
  have pos: "map_of no_position_frame ''position'' = None"
    by (simp add: no_position_frame_def)
  from missing_position_column [OF imp ver args rd rect ts eq mid pos] imp ver rd rect pos
  show ?thesis
    unfolding e_def by blast
qed

text \<open>
  C6 (as stated, refuted). With one command-line argument on a Python 3.6 interpreter the
  version check of lines 6 to 8 ends the script first: it prints the version message, not
  the usage message, and exits with status 1.
\<close>

theorem usage_old_interpreter_counterexample:
  "length (argv (sample_env (3, 6) [''plot_recorder.py'', ''full.csv''])) < 3 \<and>
   plot_recorder (sample_env (3, 6) [''plot_recorder.py'', ''full.csv'']) =
     ([Print ''Python 3.7 or higher is required.''], SysExit 1) \<and>
   Print ''Usage: python plot_recorder.py <csv_filename> <asset_id>'' \<notin>
     set (fst (plot_recorder (sample_env (3, 6) [''plot_recorder.py'', ''full.csv''])))"
  by (simp add: plot_recorder_def sample_env_def import_module_def check_version_def
      version_less_def exec_simps)

text \<open>
  C6 (amended). Every run with fewer than three entries in \<^verbatim>\<open>sys.argv\<close> ends with
  a non-zero exit status and reads no file. When the imports succeed and the interpreter
  is version 3.7 or later, the run consists of printing the usage message and exiting
  with status 1.
\<close>

theorem too_few_arguments:
  assumes "length (argv e) < 3"
  shows "exit_status (snd (plot_recorder e)) \<noteq> 0 \<and>
         (\<forall>path. FileRead path \<notin> set (fst (plot_recorder e))) \<and>
         (importable e ''pandas'' \<and> importable e ''matplotlib'' \<and>
          \<not> version_less (version_info e) (3, 7) \<longrightarrow>
            plot_recorder e =
              ([Print ''Usage: python plot_recorder.py <csv_filename> <asset_id>''], SysExit 1))"
proof (cases "importable e ''pandas''")
  case False
  then show ?thesis
    by (simp add: plot_recorder_def import_module_def exec_simps)
next
  case pandas: True
  show ?thesis
  proof (cases "importable e ''matplotlib''")
    case False
    with pandas show ?thesis
      by (simp add: plot_recorder_def import_module_def exec_simps)
  next
    case mpl: True
    show ?thesis
    proof (cases "version_less (version_info e) (3, 7)")
      case True
      with pandas mpl show ?thesis
        by (simp add: plot_recorder_def import_module_def check_version_def exec_simps)
    next
      case False
      with pandas mpl assms show ?thesis
        by (simp add: plot_recorder_def import_module_def check_version_def
            check_packages_ok check_usage_def exec_simps)
    qed
  qed
qed

theorem too_few_arguments_witness:
  "length (argv (sample_env (3, 11) [''plot_recorder.py'', ''full.csv''])) < 3 \<and>
   importable (sample_env (3, 11) [''plot_recorder.py'', ''full.csv'']) ''pandas'' \<and>
   importable (sample_env (3, 11) [''plot_recorder.py'', ''full.csv'']) ''matplotlib'' \<and>
   \<not> version_less (version_info (sample_env (3, 11) [''plot_recorder.py'', ''full.csv''])) (3, 7) \<and>
   exit_status (snd (plot_recorder (sample_env (3, 11) [''plot_recorder.py'', ''full.csv'']))) \<noteq> 0 \<and>
   (\<forall>path. FileRead path \<notin>
      set (fst (plot_recorder (sample_env (3, 11) [''plot_recorder.py'', ''full.csv''])))) \<and>
   plot_recorder (sample_env (3, 11) [''plot_recorder.py'', ''full.csv'']) =
     ([Print ''Usage: python plot_recorder.py <csv_filename> <asset_id>''], SysExit 1)"
proof -
  define e where "e = sample_env (3, 11) [''plot_recorder.py'', ''full.csv'']"
  have h: "length (argv e) < 3"
    by (simp add: e_def sample_env_def)
  have imp: "importable e ''pandas''" "importable e ''matplotlib''"
    by (simp_all add: e_def sample_env_def)
  have ver: "\<not> version_less (version_info e) (3, 7)"
    by (simp add: e_def sample_env_def version_less_def)
  from too_few_arguments [OF h] h imp ver show ?thesis
    unfolding e_def by blast
qed

text \<open>
  C9. When the script has read a table, the conversion of line 35 changes no column of
  it other than \<^verbatim>\<open>timestamp\<close>. Every line the script plots has the converted
  timestamps as its x data and, as its y data, a column exactly as read: \<^verbatim>\<open>equity\<close>
  on \<^verbatim>\<open>ax1\<close>, \<^verbatim>\<open>position\<close> on \<^verbatim>\<open>ax2\<close>, \<^verbatim>\<open>mid_price\<close> on the two
  twin axes. No run of the script writes a file.
\<close>

theorem timestamp_conversion_frame:
  assumes "read_csv e (argv e ! 1) = Inr df"
  shows "(\<forall>df'. convert_timestamp e df = Inr df' \<longrightarrow>
            (\<forall>c. c \<noteq> ''timestamp'' \<longrightarrow> map_of df' c = map_of df c)) \<and>
         (\<forall>ax x y kw. Plot ax x y kw \<in> set (fst (plot_recorder e)) \<longrightarrow>
            (\<exists>ts. map_of df ''timestamp'' = Some ts \<and>
                  to_datetime (to_datetime_us e) ts = Inr x) \<and>
            ((ax = Ax1 \<and> map_of df ''equity'' = Some y) \<or>
             (ax = Ax1b \<and> map_of df ''mid_price'' = Some y) \<or>
             (ax = Ax2 \<and> map_of df ''position'' = Some y) \<or>
             (ax = Ax2b \<and> map_of df ''mid_price'' = Some y))) \<and>
         (\<forall>path. FileWrite path \<notin> set (fst (plot_recorder e)))"
proof (intro conjI allI impI)
  fix df' c
  assume "convert_timestamp e df = Inr df'" and "c \<noteq> ''timestamp''"
  then show "map_of df' c = map_of df c"
    by (auto dest: convert_timestamp_frame)
next
  fix path
  show "FileWrite path \<notin> set (fst (plot_recorder e))"
    using render_no_write by (auto dest!: plot_recorder_events)
next
  fix ax x y kw
  assume "Plot ax x y kw \<in> set (fst (plot_recorder e))"
  then obtain df' where conv: "convert_timestamp e df = Inr df'"
    and r: "Plot ax x y kw \<in> set (fst (render df' (argv e ! 2)))"
    using assms by (auto dest!: plot_recorder_events)
  from conv obtain ts ts' where ts: "map_of df ''timestamp'' = Some ts"
    "to_datetime (to_datetime_us e) ts = Inr ts'"
    "map_of df' = (map_of df)(''timestamp'' \<mapsto> ts')"
    by (auto dest: convert_timestamp_frame)
  have g: "getitem df' c = (if c = ''timestamp'' then Inr ts'
      else case map_of df c of None \<Rightarrow> Inl (KeyError c) | Some col \<Rightarrow> Inr col)" for c
    by (simp add: getitem_def ts(3))
  from render_plots [OF r] have x: "x = ts'"
    by (simp add: g)
  show "\<exists>ts. map_of df ''timestamp'' = Some ts \<and> to_datetime (to_datetime_us e) ts = Inr x"
    using ts x by auto
  from render_plots [OF r]
  show "(ax = Ax1 \<and> map_of df ''equity'' = Some y) \<or>
        (ax = Ax1b \<and> map_of df ''mid_price'' = Some y) \<or>
        (ax = Ax2 \<and> map_of df ''position'' = Some y) \<or>
        (ax = Ax2b \<and> map_of df ''mid_price'' = Some y)"
    by (auto simp: g split: option.splits)
qed

theorem timestamp_conversion_frame_witness:
  "read_csv (sample_env (3, 11) [''plot_recorder.py'', ''full.csv'', ''BTC''])
     (argv (sample_env (3, 11) [''plot_recorder.py'', ''full.csv'', ''BTC'']) ! 1) =
     Inr sample_frame \<and>
   convert_timestamp (sample_env (3, 11) [''plot_recorder.py'', ''full.csv'', ''BTC''])
     sample_frame =
     Inr [(''timestamp'', [1, 2]), (''equity'', [100, 101]), (''mid_price'', [50, 51]),
          (''position'', [0, 1])] \<and>
   snd (plot_recorder (sample_env (3, 11) [''plot_recorder.py'', ''full.csv'', ''BTC''])) =
     Returned \<and>
   Plot Ax2 [1, 2] [0, 1] [(''label'', ''Position'')] \<in>
     set (fst (plot_recorder (sample_env (3, 11) [''plot_recorder.py'', ''full.csv'', ''BTC'']))) \<and>
   map_of sample_frame ''position'' = Some [0, 1] \<and>
   (\<forall>path. FileWrite path \<notin>
      set (fst (plot_recorder (sample_env (3, 11) [''plot_recorder.py'', ''full.csv'', ''BTC'']))))"
proof -
  define e where "e = sample_env (3, 11) [''plot_recorder.py'', ''full.csv'', ''BTC'']"
  define df' where "df' = [(''timestamp'', [1, 2 :: rat]), (''equity'', [100, 101]),
    (''mid_price'', [50, 51]), (''position'', [0, 1])]"
  have imp: "importable e ''pandas''" "importable e ''matplotlib''"
    by (simp_all add: e_def sample_env_def)
  have ver: "\<not> version_less (version_info e) (3, 7)"
    by (simp add: e_def sample_env_def version_less_def)
  have args: "3 \<le> length (argv e)"
    by (simp add: e_def sample_env_def)
  have rd: "read_csv e (argv e ! 1) = Inr sample_frame"
    by (simp add: e_def sample_env_def)
  have conv: "convert_timestamp e sample_frame = Inr df'"
    by (simp add: convert_timestamp_def getitem_def setitem_def sample_frame_def e_def
        sample_env_def sample_conv_def df'_def)
  have g: "getitem df' ''timestamp'' = Inr [1, 2]" "getitem df' ''equity'' = Inr [100, 101]"
    "getitem df' ''mid_price'' = Inr [50, 51]" "getitem df' ''position'' = Inr [0, 1]"
    by (simp_all add: getitem_def df'_def)
  have r: "snd (render df' (argv e ! 2)) = Returned \<and>
      Plot Ax2 [1, 2] [0, 1] [(''label'', ''Position'')] \<in> set (fst (render df' (argv e ! 2)))"
    unfolding render_def
    by (simp add: exec_simps plot_columns_ok [OF g(1) g(2)] plot_columns_ok [OF g(1) g(3)]
        plot_columns_ok [OF g(1) g(4)])
  have run: "snd (plot_recorder e) = Returned"
    "Plot Ax2 [1, 2] [0, 1] [(''label'', ''Position'')] \<in> set (fst (plot_recorder e))"
    using r by (simp_all add: plot_recorder_started [OF imp ver args rd conv])
  have pos: "map_of sample_frame ''position'' = Some [0, 1]"
    by (simp add: sample_frame_def)
  from timestamp_conversion_frame [OF rd]
  have w: "\<forall>path. FileWrite path \<notin> set (fst (plot_recorder e))"
    by (rule conjunct2 [OF conjunct2])
  from rd conv run pos w show ?thesis
    unfolding e_def df'_def by simp
qed

end
